theory Spec2Isabelle
  imports Main "HOL-Library.Word"
begin

section \<open>Persisted tables\<close>

text \<open>
  The tables of \<^verbatim>\<open>server/config/initDatabase.js\<close>. Every id column is an
  \<^verbatim>\<open>INTEGER\<close>, so ids are \<^typ>\<open>int\<close>; \<^verbatim>\<open>CURRENT_TIMESTAMP\<close> is a reading of the
  clock, a \<^typ>\<open>nat\<close> handed to the operation that inserts. A table is the list of its
  rows in insertion order. Message content and route parameters are JavaScript strings,
  sequences of UTF-16 code units, because the code inspects their characters; the other
  texts are only stored and compared.
\<close>

type_synonym jsstring = "16 word list"

text \<open>The range of the column type \<^verbatim>\<open>INTEGER\<close>.\<close>

definition int4 :: "int \<Rightarrow> bool" where
  "int4 n = (- 2147483648 \<le> n \<and> n \<le> 2147483647)"

subsection \<open>JavaScript strings\<close>

text \<open>
  \<^verbatim>\<open>String.prototype.trim\<close> removes the white space and line terminator code units
  of ECMAScript from both ends of a string.
\<close>

definition is_whitespace :: "16 word \<Rightarrow> bool" where
  "is_whitespace c =
     (c \<in> {0x9, 0xA, 0xB, 0xC, 0xD, 0x20, 0xA0, 0x1680, 0x2028, 0x2029, 0x202F, 0x205F,
            0x3000, 0xFEFF}
      \<or> (0x2000 \<le> c \<and> c \<le> 0x200A))"


text \<open>
  \<^verbatim>\<open>parseInt(str)\<close> without a radix: leading white space is skipped, a sign is read,
  \<^verbatim>\<open>0x\<close> or \<^verbatim>\<open>0X\<close> selects radix 16, and the longest run of digits of the radix is
  the number, whatever follows it; \<open>None\<close> is \<^verbatim>\<open>NaN\<close>, the result when there is no
  digit. The number is exact here; JavaScript rounds it beyond \<open>2 ^ 53\<close>, where it is
  equal to no id of the range of \<^verbatim>\<open>INTEGER\<close> before or after the rounding.
\<close>

definition digit_of :: "16 word \<Rightarrow> nat option" where
  "digit_of c =
     (if 0x30 \<le> c \<and> c \<le> 0x39 then Some (unat c - 48)
      else if 0x61 \<le> c \<and> c \<le> 0x7A then Some (unat c - 87)
      else if 0x41 \<le> c \<and> c \<le> 0x5A then Some (unat c - 55)
      else None)"

fun radix_digits :: "nat \<Rightarrow> jsstring \<Rightarrow> nat list" where
  "radix_digits r [] = []"
| "radix_digits r (c # cs) =
     (case digit_of c of
        None \<Rightarrow> []
      | Some v \<Rightarrow> if v < r then v # radix_digits r cs else [])"

definition radix_value :: "nat \<Rightarrow> nat list \<Rightarrow> nat" where
  "radix_value r ds = foldl (\<lambda>a v. a * r + v) 0 ds"

definition parseInt :: "jsstring \<Rightarrow> int option" where
  "parseInt str =
     (let s0 = dropWhile is_whitespace str;
          negative = (case s0 of [] \<Rightarrow> False | c # _ \<Rightarrow> c = 0x2D);
          s1 = (case s0 of [] \<Rightarrow> [] | c # cs \<Rightarrow> if c = 0x2B \<or> c = 0x2D then cs else s0);
          hex = (case s1 of c # d # _ \<Rightarrow> c = 0x30 \<and> (d = 0x78 \<or> d = 0x58) | _ \<Rightarrow> False);
          r = (if hex then 16 else 10);
          ds = radix_digits r (if hex then drop 2 s1 else s1)
      in if ds = [] then None
         else Some ((if negative then - 1 else 1) * int (radix_value r ds)))"

text \<open>
  What the database keeps of a text parameter. The driver sends a string in UTF-8, in
  which a surrogate code unit that is not half of a pair becomes U+FFFD; the database
  refuses a text with the code point 0.
\<close>

definition is_high_surrogate :: "16 word \<Rightarrow> bool" where
  "is_high_surrogate c = (0xD800 \<le> c \<and> c \<le> 0xDBFF)"

definition is_low_surrogate :: "16 word \<Rightarrow> bool" where
  "is_low_surrogate c = (0xDC00 \<le> c \<and> c \<le> 0xDFFF)"

fun utf8_text :: "jsstring \<Rightarrow> jsstring" where
  "utf8_text [] = []"
| "utf8_text [c] = (if is_high_surrogate c \<or> is_low_surrogate c then [0xFFFD] else [c])"
| "utf8_text (c # d # cs) =
     (if is_high_surrogate c \<and> is_low_surrogate d then c # d # utf8_text cs
      else if is_high_surrogate c \<or> is_low_surrogate c then 0xFFFD # utf8_text (d # cs)
      else c # utf8_text (d # cs))"

record users_row =
  u_id :: int
  u_username :: string
  u_avatar_color :: string

record channels_row =
  c_id :: int
  c_name :: string
  c_description :: "string option"
  c_creator_id :: int
  c_created_at :: nat

record channel_members_row =
  cm_channel_id :: int
  cm_user_id :: int
  cm_joined_at :: nat

record messages_row =
  m_id :: int
  m_channel_id :: int
  m_user_id :: int
  m_content :: jsstring
  m_created_at :: nat

text \<open>
  The two \<^verbatim>\<open>SERIAL\<close> counters that the modelled code reads back are part of the
  database: a counter holds the last value handed out, and a value once handed out is
  not given back when the insert fails or the transaction is rolled back.
\<close>

record database =
  users :: "users_row list"
  channels :: "channels_row list"
  channel_members :: "channel_members_row list"
  messages :: "messages_row list"
  channels_id_seq :: int
  messages_id_seq :: int

subsection \<open>Queries\<close>

text \<open>\<^verbatim>\<open>SELECT * FROM channel_members WHERE channel_id = $1 AND user_id = $2\<close>\<close>

definition select_channel_members :: "database \<Rightarrow> int \<Rightarrow> int \<Rightarrow> channel_members_row list" where
  "select_channel_members d channelId userId =
     filter (\<lambda>r. cm_channel_id r = channelId \<and> cm_user_id r = userId) (channel_members d)"

text \<open>\<^verbatim>\<open>SELECT creator_id FROM channels WHERE id = $1\<close>\<close>

definition select_creator_id :: "database \<Rightarrow> int \<Rightarrow> int list" where
  "select_creator_id d channelId =
     map c_creator_id (filter (\<lambda>c. c_id c = channelId) (channels d))"

text \<open>\<^verbatim>\<open>SELECT username, avatar_color FROM users WHERE id = $1\<close>\<close>

definition select_user :: "database \<Rightarrow> int \<Rightarrow> users_row list" where
  "select_user d userId = filter (\<lambda>u. u_id u = userId) (users d)"

definition channel_exists :: "database \<Rightarrow> int \<Rightarrow> bool" where
  "channel_exists d channelId = (channelId \<in> set (map c_id (channels d)))"

definition user_exists :: "database \<Rightarrow> int \<Rightarrow> bool" where
  "user_exists d userId = (userId \<in> set (map u_id (users d)))"

text \<open>
  \<^verbatim>\<open>INSERT INTO messages (channel_id, user_id, content) VALUES ($1, $2, $3) RETURNING *\<close>.
  The row gets the next value of the counter and the time of the insert, and its content
  is the text that the database keeps of the parameter. A content with the code point 0,
  refused when the parameter is read, and a violation of one of the two foreign keys of
  the table make the query throw, which is \<open>None\<close> here.
\<close>

definition insert_message ::
  "database \<Rightarrow> nat \<Rightarrow> int \<Rightarrow> int \<Rightarrow> jsstring \<Rightarrow> database \<times> messages_row option" where
  "insert_message d now channelId userId content =
     (if 0 \<in> set content then (d, None)
      else
        (let d1 = d\<lparr>messages_id_seq := messages_id_seq d + 1\<rparr>;
             row = \<lparr>m_id = messages_id_seq d1, m_channel_id = channelId, m_user_id = userId,
                    m_content = utf8_text content, m_created_at = now\<rparr>
         in if channel_exists d1 channelId \<and> user_exists d1 userId
            then (d1\<lparr>messages := messages d1 @ [row]\<rparr>, Some row)
            else (d1, None)))"

text \<open>
  \<^verbatim>\<open>INSERT INTO channels (name, description, creator_id) VALUES ($1, $2, $3) RETURNING *\<close>.
  \<^verbatim>\<open>name\<close> is \<^verbatim>\<open>VARCHAR(100) NOT NULL\<close>: a missing name (\<open>None\<close>, the
  \<^verbatim>\<open>undefined\<close> of a request body without it) or a longer one is refused. The id is
  the primary key and \<^verbatim>\<open>creator_id\<close> references \<^verbatim>\<open>users\<close>.
\<close>

definition insert_channel ::
  "database \<Rightarrow> nat \<Rightarrow> string option \<Rightarrow> string option \<Rightarrow> int \<Rightarrow> database \<times> channels_row option" where
  "insert_channel d now name description creatorId =
     (let d1 = d\<lparr>channels_id_seq := channels_id_seq d + 1\<rparr>
      in case name of
           None \<Rightarrow> (d1, None)
         | Some n \<Rightarrow>
             (let row = \<lparr>c_id = channels_id_seq d1, c_name = n, c_description = description,
                         c_creator_id = creatorId, c_created_at = now\<rparr>
              in if length n \<le> 100 \<and> \<not> channel_exists d1 (c_id row) \<and> user_exists d1 creatorId
                 then (d1\<lparr>channels := channels d1 @ [row]\<rparr>, Some row)
                 else (d1, None)))"

text \<open>
  \<^verbatim>\<open>INSERT INTO channel_members (channel_id, user_id) VALUES ($1, $2)\<close>. The table
  has two foreign keys and \<^verbatim>\<open>UNIQUE(channel_id, user_id)\<close>; a violation of any of
  them makes the query throw (\<open>None\<close>).
\<close>

definition insert_channel_member :: "database \<Rightarrow> nat \<Rightarrow> int \<Rightarrow> int \<Rightarrow> database option" where
  "insert_channel_member d now channelId userId =
     (if channel_exists d channelId \<and> user_exists d userId
         \<and> select_channel_members d channelId userId = []
      then Some (d\<lparr>channel_members := channel_members d @
                    [\<lparr>cm_channel_id = channelId, cm_user_id = userId, cm_joined_at = now\<rparr>]\<rparr>)
      else None)"

text \<open>\<^verbatim>\<open>DELETE FROM channel_members WHERE channel_id = $1 AND user_id = $2\<close>\<close>

definition delete_channel_member :: "database \<Rightarrow> int \<Rightarrow> int \<Rightarrow> database" where
  "delete_channel_member d channelId userId =
     d\<lparr>channel_members :=
         filter (\<lambda>r. \<not> (cm_channel_id r = channelId \<and> cm_user_id r = userId)) (channel_members d)\<rparr>"

text \<open>
  The history query of \<^verbatim>\<open>getChannelMessages\<close>: the messages of the channel joined with
  their authors, \<^verbatim>\<open>ORDER BY m.created_at DESC LIMIT $2 OFFSET $3\<close>. The query names
  no second sort key; here rows of equal time come newest insert first.
\<close>

definition select_channel_messages ::
  "database \<Rightarrow> int \<Rightarrow> nat \<Rightarrow> nat \<Rightarrow> (messages_row \<times> string \<times> string) list" where
  "select_channel_messages d channelId limit offset =
     take limit (drop offset (rev (sort_key (\<lambda>r. m_created_at (fst r))
       (concat (map (\<lambda>m. map (\<lambda>u. (m, u_username u, u_avatar_color u)) (select_user d (m_user_id m)))
          (filter (\<lambda>m. m_channel_id m = channelId) (messages d)))))))"

section \<open>Connections, rooms and events\<close>

text \<open>
  A connection is the \<^verbatim>\<open>socket\<close> object of \<^verbatim>\<open>server/socket/sockerHandler.js\<close>: its
  id and the identity that the authentication middleware took from the token. A room
  \<^verbatim>\<open>channel_${channelId}\<close> is the set of the connections that joined it, kept in
  joining order; a room that nobody joined is the empty list. The events that the server
  emits are collected in an outbox, each with the id of the connection it is delivered to.
\<close>

record socket =
  sid :: nat
  s_userId :: int
  s_username :: string

datatype event =
    Error_event string
  | Force_leave_channel int
  | User_joined int string int
  | User_left int string int
  | Room_info int nat
  | New_message messages_row string string
  | User_typing int string int bool
  | User_kicked int int
  | Member_removed_notification int int

record state =
  db :: database
  rooms :: "int \<Rightarrow> socket list"
  outbox :: "(nat \<times> event) list"

text \<open>\<^verbatim>\<open>socket.emit(e)\<close>: to this connection only.\<close>

definition socket_emit :: "state \<Rightarrow> socket \<Rightarrow> event \<Rightarrow> state" where
  "socket_emit st s e = st\<lparr>outbox := outbox st @ [(sid s, e)]\<rparr>"

text \<open>\<^verbatim>\<open>io.to(room).emit(e)\<close>: to every connection in the room.\<close>

definition io_to_emit :: "state \<Rightarrow> int \<Rightarrow> event \<Rightarrow> state" where
  "io_to_emit st channelId e =
     st\<lparr>outbox := outbox st @ map (\<lambda>r. (sid r, e)) (rooms st channelId)\<rparr>"

text \<open>\<^verbatim>\<open>socket.to(room).emit(e)\<close>: to every connection in the room but this one.\<close>

definition socket_to_emit :: "state \<Rightarrow> socket \<Rightarrow> int \<Rightarrow> event \<Rightarrow> state" where
  "socket_to_emit st s channelId e =
     st\<lparr>outbox := outbox st @
          map (\<lambda>r. (sid r, e)) (filter (\<lambda>r. sid r \<noteq> sid s) (rooms st channelId))\<rparr>"

text \<open>\<^verbatim>\<open>socket.join(room)\<close> adds the connection unless its id is already there.\<close>

definition socket_join :: "state \<Rightarrow> socket \<Rightarrow> int \<Rightarrow> state" where
  "socket_join st s channelId =
     (if sid s \<in> set (map sid (rooms st channelId)) then st
      else st\<lparr>rooms := (rooms st)(channelId := rooms st channelId @ [s])\<rparr>)"

text \<open>\<^verbatim>\<open>socket.leave(room)\<close> deletes the connection's id from the room.\<close>

definition socket_leave :: "state \<Rightarrow> socket \<Rightarrow> int \<Rightarrow> state" where
  "socket_leave st s channelId =
     st\<lparr>rooms := (rooms st)(channelId := filter (\<lambda>r. sid r \<noteq> sid s) (rooms st channelId))\<rparr>"

section \<open>Real-time handlers\<close>

text \<open>
  A handler takes the state, the connection it is registered on and the payload of the
  event, and returns the state; its \<^verbatim>\<open>await\<close>s run to the end before another event
  is handled, and what it writes to the console is left out. The ids of a payload are
  integers, as the client sends them.
\<close>

text \<open>
  The \<^verbatim>\<open>send_message\<close> handler. A query that throws lands in the \<^verbatim>\<open>catch\<close> block,
  which reports \<^verbatim>\<open>Error sending message\<close> to the sender; what was written before the
  throw stays written. The membership query is the first that can throw: the database
  refuses a parameter outside the range of \<^verbatim>\<open>INTEGER\<close> for an \<^verbatim>\<open>INTEGER\<close> column.
\<close>

definition send_message :: "state \<Rightarrow> nat \<Rightarrow> socket \<Rightarrow> int \<Rightarrow> jsstring \<Rightarrow> state" where
  "send_message st now s channelId content =
     (if \<not> (int4 channelId \<and> int4 (s_userId s)) then
        socket_emit st s (Error_event ''Error sending message'')
      else if select_channel_members (db st) channelId (s_userId s) = [] then
        socket_emit
          (socket_emit st s (Error_event ''You are not a member of this channel''))
          s (Force_leave_channel channelId)
      else
        (case insert_message (db st) now channelId (s_userId s) content of
           (d1, None) \<Rightarrow>
             socket_emit (st\<lparr>db := d1\<rparr>) s (Error_event ''Error sending message'')
         | (d1, Some message) \<Rightarrow>
             (case select_user d1 (s_userId s) of
                [] \<Rightarrow> socket_emit (st\<lparr>db := d1\<rparr>) s (Error_event ''Error sending message'')
              | u # _ \<Rightarrow>
                  io_to_emit (st\<lparr>db := d1\<rparr>) channelId
                    (New_message message (u_username u) (u_avatar_color u)))))"

text \<open>The \<^verbatim>\<open>join_channel\<close> handler.\<close>

definition join_channel :: "state \<Rightarrow> socket \<Rightarrow> int \<Rightarrow> state" where
  "join_channel st s channelId =
     (if select_channel_members (db st) channelId (s_userId s) = [] then
        socket_emit
          (socket_emit st s (Error_event ''Not a member of this channel''))
          s (Force_leave_channel channelId)
      else
        (let st1 = socket_join st s channelId;
             st2 = socket_to_emit st1 s channelId (User_joined (s_userId s) (s_username s) channelId);
             roomSize = length (rooms st2 channelId)
         in io_to_emit st2 channelId (Room_info channelId roomSize)))"

text \<open>The \<^verbatim>\<open>leave_channel\<close> handler.\<close>

definition leave_channel :: "state \<Rightarrow> socket \<Rightarrow> int \<Rightarrow> state" where
  "leave_channel st s channelId =
     socket_to_emit (socket_leave st s channelId) s channelId
       (User_left (s_userId s) (s_username s) channelId)"

text \<open>The \<^verbatim>\<open>typing\<close> handler.\<close>

definition typing :: "state \<Rightarrow> socket \<Rightarrow> int \<Rightarrow> bool \<Rightarrow> state" where
  "typing st s channelId isTyping =
     (if select_channel_members (db st) channelId (s_userId s) = [] then st
      else socket_to_emit st s channelId
             (User_typing (s_userId s) (s_username s) channelId isTyping))"

text \<open>
  The loop of the \<^verbatim>\<open>kick_user_from_channel\<close> handler over the connections that
  \<^verbatim>\<open>fetchSockets\<close> found in the room.
\<close>

fun force_disconnect :: "state \<Rightarrow> socket list \<Rightarrow> int \<Rightarrow> int \<Rightarrow> state" where
  "force_disconnect st [] channelId kickedUserId = st"
| "force_disconnect st (x # xs) channelId kickedUserId =
     force_disconnect
       (if s_userId x = kickedUserId
        then socket_emit (socket_leave st x channelId) x (Force_leave_channel channelId)
        else st)
       xs channelId kickedUserId"

text \<open>The \<^verbatim>\<open>kick_user_from_channel\<close> handler.\<close>

definition kick_user_from_channel :: "state \<Rightarrow> socket \<Rightarrow> int \<Rightarrow> int \<Rightarrow> state" where
  "kick_user_from_channel st s channelId kickedUserId =
     (case select_creator_id (db st) channelId of
        [] \<Rightarrow> socket_emit st s (Error_event ''Channel not found'')
      | creator_id # _ \<Rightarrow>
          if creator_id \<noteq> s_userId s
          then socket_emit st s (Error_event ''Only channel creator can remove members'')
          else
            (let st1 = io_to_emit st channelId (User_kicked channelId kickedUserId);
                 st2 = force_disconnect st1 (rooms st1 channelId) channelId kickedUserId
             in io_to_emit st2 channelId (Member_removed_notification channelId kickedUserId)))"

section \<open>HTTP controllers\<close>

text \<open>
  The handlers of \<^verbatim>\<open>controllers/channelsController.js\<close> that the routes of
  \<^verbatim>\<open>server/routes/channels.js\<close> mount behind \<^verbatim>\<open>authenticateToken\<close>. A handler
  takes the database, the id of the authenticated requester (\<^verbatim>\<open>req.user.id\<close>) and the
  request's parameters; it returns the database and the response, a status with a body.
  For \<^verbatim>\<open>joinChannel\<close> and \<^verbatim>\<open>getChannelMessages\<close> the route parameter
  \<^verbatim>\<open>channelId\<close> is the integer that the database reads from it.
\<close>

datatype body =
    Error_body string
  | Message_body string
  | Channel_body string channels_row
  | Messages_body "(messages_row \<times> string \<times> string) list"

type_synonym response = "nat \<times> body"

text \<open>
  \<^verbatim>\<open>createChannel\<close> runs its two inserts in a transaction; \<^verbatim>\<open>ROLLBACK\<close> restores
  the tables.
\<close>

definition createChannel ::
  "database \<Rightarrow> nat \<Rightarrow> int \<Rightarrow> string option \<Rightarrow> string option \<Rightarrow> database \<times> response" where
  "createChannel d now creatorId name description =
     (case insert_channel d now name description creatorId of
        (d1, None) \<Rightarrow>
          (d\<lparr>channels_id_seq := channels_id_seq d1\<rparr>,
           (500, Error_body ''Server error creating channel''))
      | (d1, Some channel) \<Rightarrow>
          (case insert_channel_member d1 now (c_id channel) creatorId of
             None \<Rightarrow>
               (d\<lparr>channels_id_seq := channels_id_seq d1\<rparr>,
                (500, Error_body ''Server error creating channel''))
           | Some d2 \<Rightarrow> (d2, (201, Channel_body ''Channel created successfully'' channel))))"

definition joinChannel :: "database \<Rightarrow> nat \<Rightarrow> int \<Rightarrow> int \<Rightarrow> database \<times> response" where
  "joinChannel d now userId channelId =
     (if select_channel_members d channelId userId \<noteq> []
      then (d, (400, Error_body ''Already a member of this channel''))
      else
        (case insert_channel_member d now channelId userId of
           None \<Rightarrow> (d, (500, Error_body ''Server error joining channel''))
         | Some d1 \<Rightarrow> (d1, (200, Message_body ''Successfully joined channel''))))"

text \<open>
  \<^verbatim>\<open>removeUserFromChannel\<close> reads the route parameter \<^verbatim>\<open>userId\<close> twice: the guard
  for the creator compares \<^verbatim>\<open>parseInt(userId)\<close>, and the \<^verbatim>\<open>DELETE\<close> receives the
  string itself, which the database reads as an \<^verbatim>\<open>INTEGER\<close>. The database is not part
  of the repository and its reading of a numeral depends on its version, so a route
  parameter comes with it: the text of the parameter, and the integer that the database
  reads from that text, \<open>None\<close> when it refuses the text and the query throws. The
  \<^verbatim>\<open>catch\<close> block answers a query that throws with status 500.
\<close>

record route_param =
  raw :: jsstring
  as_integer :: "int option"

definition removeUserFromChannel ::
  "database \<Rightarrow> int \<Rightarrow> route_param \<Rightarrow> route_param \<Rightarrow> database \<times> response" where
  "removeUserFromChannel d requesterId channelId userId =
     (case as_integer channelId of
        None \<Rightarrow> (d, (500, Error_body ''Server error removing user''))
      | Some channel_id \<Rightarrow>
          (case select_creator_id d channel_id of
             [] \<Rightarrow> (d, (404, Error_body ''Channel not found''))
           | creator_id # _ \<Rightarrow>
               if creator_id \<noteq> requesterId
               then (d, (403, Error_body ''Only channel creator can remove members''))
               else if parseInt (raw userId) = Some requesterId
               then (d, (400, Error_body ''Creator cannot be removed from channel''))
               else
                 (case as_integer userId of
                    None \<Rightarrow> (d, (500, Error_body ''Server error removing user''))
                  | Some user_id \<Rightarrow>
                      (delete_channel_member d channel_id user_id,
                       (200, Message_body ''User removed from channel successfully'')))))"

text \<open>
  \<^verbatim>\<open>getChannelMessages\<close>. A query parameter is the integer that \<^verbatim>\<open>parseInt\<close> reads
  from it, \<open>None\<close> when it is absent or not a number; \<^verbatim>\<open>|| 50\<close> and \<^verbatim>\<open>|| 0\<close> replace
  \<^verbatim>\<open>NaN\<close> and \<^verbatim>\<open>0\<close>. The database refuses a negative \<^verbatim>\<open>LIMIT\<close> or
  \<^verbatim>\<open>OFFSET\<close>, which the \<^verbatim>\<open>catch\<close> block answers with status 500. The handler
  does not read \<^verbatim>\<open>req.user\<close>.
\<close>

definition getChannelMessages ::
  "database \<Rightarrow> int \<Rightarrow> int \<Rightarrow> int option \<Rightarrow> int option \<Rightarrow> response" where
  "getChannelMessages d requesterId channelId limit_param offset_param =
     (let limit = (case limit_param of None \<Rightarrow> 50 | Some n \<Rightarrow> if n = 0 then 50 else n);
          offset = (case offset_param of None \<Rightarrow> 0 | Some n \<Rightarrow> n)
      in if limit < 0 \<or> offset < 0
         then (500, Error_body ''Server error fetching messages'')
         else (200, Messages_body
                 (rev (select_channel_messages d channelId (nat limit) (nat offset)))))"

section \<open>The client's message input\<close>





section \<open>Sequences of requests\<close>

text \<open>
  The requests that the server answers, each with its inputs, and the state after a
  sequence of them handled one after the other. The response of an HTTP request is not
  part of the state.
\<close>

datatype request =
    CreateChannel nat int "string option" "string option"
  | JoinChannel nat int int
  | RemoveUserFromChannel int route_param route_param
  | GetChannelMessages int int "int option" "int option"
  | Join_channel socket int
  | Leave_channel socket int
  | Send_message nat socket int jsstring
  | Typing socket int bool
  | Kick_user_from_channel socket int int

fun step :: "state \<Rightarrow> request \<Rightarrow> state" where
  "step st (CreateChannel now creatorId name description) =
     st\<lparr>db := fst (createChannel (db st) now creatorId name description)\<rparr>"
| "step st (JoinChannel now userId channelId) =
     st\<lparr>db := fst (joinChannel (db st) now userId channelId)\<rparr>"
| "step st (RemoveUserFromChannel requesterId channelId userId) =
     st\<lparr>db := fst (removeUserFromChannel (db st) requesterId channelId userId)\<rparr>"
| "step st (GetChannelMessages requesterId channelId limit_param offset_param) = st"
| "step st (Join_channel s channelId) = join_channel st s channelId"
| "step st (Leave_channel s channelId) = leave_channel st s channelId"
| "step st (Send_message now s channelId content) = send_message st now s channelId content"
| "step st (Typing s channelId isTyping) = typing st s channelId isTyping"
| "step st (Kick_user_from_channel s channelId kickedUserId) =
     kick_user_from_channel st s channelId kickedUserId"

definition run :: "state \<Rightarrow> request list \<Rightarrow> state" where
  "run st reqs = foldl step st reqs"


section \<open>Invariants of the membership table\<close>

text \<open>At most one membership row for a channel and a user.\<close>

definition unique_members :: "database \<Rightarrow> bool" where
  "unique_members d =
     distinct (map (\<lambda>r. (cm_channel_id r, cm_user_id r)) (channel_members d))"




text \<open>The events added to the outbox between two states.\<close>

definition emitted :: "state \<Rightarrow> state \<Rightarrow> (nat \<times> event) list" where
  "emitted st st' = drop (length (outbox st)) (outbox st')"

section \<open>A small deployment\<close>

text \<open>
  Three users; Alice created the channel 1 and Bob joined it, Carol did not. Alice has
  one connection, Bob two, Carol one.
\<close>

definition alice :: users_row where
  "alice = \<lparr>u_id = 1, u_username = ''alice'', u_avatar_color = ''#1976d2''\<rparr>"

definition bob :: users_row where
  "bob = \<lparr>u_id = 2, u_username = ''bob'', u_avatar_color = ''#1976d2''\<rparr>"

definition carol :: users_row where
  "carol = \<lparr>u_id = 3, u_username = ''carol'', u_avatar_color = ''#1976d2''\<rparr>"

definition general :: channels_row where
  "general = \<lparr>c_id = 1, c_name = ''general'', c_description = None, c_creator_id = 1,
              c_created_at = 0\<rparr>"

definition db0 :: database where
  "db0 = \<lparr>users = [alice, bob, carol], channels = [general],
          channel_members =
            [\<lparr>cm_channel_id = 1, cm_user_id = 1, cm_joined_at = 0\<rparr>,
             \<lparr>cm_channel_id = 1, cm_user_id = 2, cm_joined_at = 1\<rparr>],
          messages = [], channels_id_seq = 1, messages_id_seq = 0\<rparr>"

definition alice_conn :: socket where
  "alice_conn = \<lparr>sid = 10, s_userId = 1, s_username = ''alice''\<rparr>"

definition bob_phone :: socket where
  "bob_phone = \<lparr>sid = 20, s_userId = 2, s_username = ''bob''\<rparr>"

definition bob_laptop :: socket where
  "bob_laptop = \<lparr>sid = 21, s_userId = 2, s_username = ''bob''\<rparr>"

definition carol_conn :: socket where
  "carol_conn = \<lparr>sid = 30, s_userId = 3, s_username = ''carol''\<rparr>"

definition st0 :: state where
  "st0 = \<lparr>db = db0, rooms = (\<lambda>_. [])(1 := [alice_conn, bob_phone, bob_laptop]), outbox = []\<rparr>"

text \<open>
  The route parameters \<^verbatim>\<open>1\<close> and \<^verbatim>\<open>2\<close>, which every database reads as the
  numbers they are, and the route parameter \<^verbatim>\<open>0b1\<close> as a database reads it that
  takes \<^verbatim>\<open>0b\<close> for the prefix of a binary numeral.
\<close>

definition route_1 :: route_param where
  "route_1 = \<lparr>raw = [0x31], as_integer = Some 1\<rparr>"

definition route_2 :: route_param where
  "route_2 = \<lparr>raw = [0x32], as_integer = Some 2\<rparr>"

definition route_0b1 :: route_param where
  "route_0b1 = \<lparr>raw = [0x30, 0x62, 0x31], as_integer = Some 1\<rparr>"

text \<open>
  The text \<^verbatim>\<open>hi\<close>, and the deployment after Bob has sent it and Alice has then
  removed him through the HTTP endpoint.
\<close>

definition hi :: jsstring where
  "hi = [0x68, 0x69]"

definition st1 :: state where
  "st1 = run st0 [Send_message 5 bob_phone 1 hi, RemoveUserFromChannel 1 route_1 route_2]"

text \<open>The same deployment with only Alice's connection and Bob's phone in the room.\<close>

definition st2 :: state where
  "st2 = st0\<lparr>rooms := (\<lambda>_. [])(1 := [alice_conn, bob_phone])\<rparr>"

section \<open>Facts about the handlers\<close>

lemmas query_defs = select_channel_members_def select_creator_id_def select_user_def
  channel_exists_def user_exists_def

lemma route_readings:
  "as_integer route_1 = Some 1" "as_integer route_2 = Some 2" "as_integer route_0b1 = Some 1"
  by (simp_all add: route_1_def route_2_def route_0b1_def)


lemma parseInt_route_2: "parseInt (raw route_2) = Some 2"
  by (simp add: route_2_def parseInt_def digit_of_def radix_value_def is_whitespace_def Let_def)

lemma parseInt_route_0b1: "parseInt (raw route_0b1) = Some 0"
  by (simp add: route_0b1_def parseInt_def digit_of_def radix_value_def is_whitespace_def Let_def)




lemma hi_plain: "utf8_text hi = hi" "0 \<notin> set hi"
  by (simp_all add: hi_def is_high_surrogate_def is_low_surrogate_def)

lemma force_disconnect_db: "db (force_disconnect st xs channelId k) = db st"
  by (induction xs arbitrary: st) (simp_all add: socket_emit_def socket_leave_def)

lemma force_disconnect_outbox:
  "outbox (force_disconnect st xs channelId k) =
     outbox st @ map (\<lambda>x. (sid x, Force_leave_channel channelId)) (filter (\<lambda>x. s_userId x = k) xs)"
  by (induction xs arbitrary: st) (simp_all add: socket_emit_def socket_leave_def)

lemma force_disconnect_rooms:
  "rooms (force_disconnect st xs channelId k) =
     (rooms st)(channelId :=
        filter (\<lambda>r. sid r \<notin> sid ` {x \<in> set xs. s_userId x = k}) (rooms st channelId))"
proof (induction xs arbitrary: st)
  case Nil
  then show ?case by simp
next
  case (Cons x xs)
  show ?case
    by (auto simp: Cons.IH socket_emit_def socket_leave_def fun_eq_iff intro!: filter_cong)
qed

lemma kick_user_from_channel_db: "db (kick_user_from_channel st s channelId k) = db st"
  by (simp add: kick_user_from_channel_def socket_emit_def io_to_emit_def force_disconnect_db
      Let_def split: list.splits)

lemma join_channel_db: "db (join_channel st s channelId) = db st"
  by (simp add: join_channel_def socket_emit_def io_to_emit_def socket_to_emit_def
      socket_join_def Let_def)

lemma leave_channel_db: "db (leave_channel st s channelId) = db st"
  by (simp add: leave_channel_def socket_to_emit_def socket_leave_def)

lemma typing_db: "db (typing st s channelId b) = db st"
  by (simp add: typing_def socket_to_emit_def)

lemma send_message_tables:
  "channel_members (db (send_message st now s channelId content)) = channel_members (db st)"
  "channels (db (send_message st now s channelId content)) = channels (db st)"
  by (simp_all add: send_message_def socket_emit_def io_to_emit_def insert_message_def Let_def
      split: list.splits)

lemma select_after_delete:
  "select_channel_members (delete_channel_member d channelId userId) channelId userId = []"
  by (simp add: select_channel_members_def delete_channel_member_def filter_empty_conv)

lemma st1_value:
  "st1 = \<lparr>db = db0\<lparr>channel_members := [\<lparr>cm_channel_id = 1, cm_user_id = 1, cm_joined_at = 0\<rparr>],
                messages := [\<lparr>m_id = 1, m_channel_id = 1, m_user_id = 2, m_content = hi,
                              m_created_at = 5\<rparr>],
                messages_id_seq := 1\<rparr>,
         rooms = rooms st0,
         outbox = map (\<lambda>i. (i, New_message \<lparr>m_id = 1, m_channel_id = 1, m_user_id = 2,
                     m_content = hi, m_created_at = 5\<rparr> ''bob'' ''#1976d2'')) [10, 20, 21]\<rparr>"
  by (simp add: st1_def run_def send_message_def removeUserFromChannel_def insert_message_def
      delete_channel_member_def io_to_emit_def socket_emit_def Let_def query_defs int4_def
      hi_plain parseInt_route_2 route_readings
      st0_def db0_def alice_def bob_def carol_def general_def
      alice_conn_def bob_phone_def bob_laptop_def)

section \<open>Sending without membership\<close>

text \<open>
  Claim C1, as amended. A \<^verbatim>\<open>send_message\<close> from a connection whose user has no
  membership row for the channel leaves the database and the rooms as they were, so that
  no message row is written and no \<^verbatim>\<open>new_message\<close> is emitted. When the channel id
  and the user's id are in the range of \<^verbatim>\<open>INTEGER\<close>, so that the membership query
  completes, exactly two events are added to the outbox, both for the sender: the error
  \<^verbatim>\<open>You are not a member of this channel\<close>, then \<^verbatim>\<open>force_leave_channel\<close> for that
  channel. When one of them is outside the range the query throws and the sender gets
  the one event \<^verbatim>\<open>Error sending message\<close>. The state is arbitrary and holds no record
  of earlier checks: the handler reads the membership table as it is at the send.
\<close>

theorem send_message_not_a_member:
  assumes "select_channel_members (db st) channelId (s_userId s) = []"
  shows "db (send_message st now s channelId content) = db st
       \<and> rooms (send_message st now s channelId content) = rooms st
       \<and> outbox (send_message st now s channelId content) =
           outbox st @
             (if int4 channelId \<and> int4 (s_userId s)
              then [(sid s, Error_event ''You are not a member of this channel''),
                    (sid s, Force_leave_channel channelId)]
              else [(sid s, Error_event ''Error sending message'')])"
  using assms by (simp add: send_message_def socket_emit_def)

text \<open>
  Bob's first message went through while he was a member; after his removal the same
  connection is refused, its earlier success notwithstanding.
\<close>

theorem send_message_not_a_member_witness:
  "select_channel_members (db st1) 1 (s_userId bob_phone) = []
   \<and> length (messages (db st1)) = 1
   \<and> messages (db (send_message st1 9 bob_phone 1 hi)) = messages (db st1)
   \<and> emitted st1 (send_message st1 9 bob_phone 1 hi) =
       [(20, Error_event ''You are not a member of this channel''), (20, Force_leave_channel 1)]"
proof -
  have h: "select_channel_members (db st1) 1 (s_userId bob_phone) = []"
    by (simp add: st1_value select_channel_members_def db0_def bob_phone_def)
  have l: "length (messages (db st1)) = 1"
    by (simp add: st1_value)
  from send_message_not_a_member [OF h, of 9 hi] h l show ?thesis
    by (simp add: emitted_def bob_phone_def int4_def)
qed

text \<open>
  The claim as stated promises the error for non-members and \<^verbatim>\<open>force_leave_channel\<close>
  to every sender who is not a member of the channel. Carol is a member of no channel;
  her message for the channel 2147483648, one more than the largest \<^verbatim>\<open>INTEGER\<close>, is
  answered with \<^verbatim>\<open>Error sending message\<close> alone.
\<close>

theorem send_message_out_of_range_counterexample:
  "select_channel_members (db st0) 2147483648 (s_userId carol_conn) = []
   \<and> messages (db (send_message st0 5 carol_conn 2147483648 hi)) = messages (db st0)
   \<and> emitted st0 (send_message st0 5 carol_conn 2147483648 hi) =
       [(30, Error_event ''Error sending message'')]"
  by (simp add: send_message_def socket_emit_def emitted_def int4_def select_channel_members_def
      st0_def db0_def carol_conn_def)

section \<open>Forced removal\<close>

text \<open>
  Claim C2. A run of the forced-removal protocol on a channel and a target user is the
  removal request of \<^verbatim>\<open>removeUserFromChannel\<close> answered with status 200, its route
  parameters read by the database as the channel and the target, followed by the
  \<^verbatim>\<open>kick_user_from_channel\<close> event for them from a connection of the same requester.
  After it the target has no membership row for the channel, no connection of the target
  is left in the channel's room, and every connection of the target that was in the room,
  however many there were, is out of the room and was sent \<^verbatim>\<open>force_leave_channel\<close>
  for the channel on its own.
\<close>

theorem forced_removal_run:
  assumes "removeUserFromChannel (db st) (s_userId s) channelParam userParam = (d1, (200, b))"
    and "as_integer channelParam = Some channelId"
    and "as_integer userParam = Some targetUserId"
  shows "let st' = kick_user_from_channel (st\<lparr>db := d1\<rparr>) s channelId targetUserId in
           select_channel_members (db st') channelId targetUserId = []
         \<and> (\<forall>r \<in> set (rooms st' channelId). s_userId r \<noteq> targetUserId)
         \<and> (\<forall>r \<in> set (rooms st channelId). s_userId r = targetUserId \<longrightarrow>
               sid r \<notin> sid ` set (rooms st' channelId)
             \<and> (sid r, Force_leave_channel channelId) \<in> set (emitted st st'))"
proof -
  from assms obtain rest where
    creator: "select_creator_id (db st) channelId = s_userId s # rest"
    and d1: "d1 = delete_channel_member (db st) channelId targetUserId"
    by (auto simp: removeUserFromChannel_def split: list.splits if_splits)
  have same: "select_creator_id d1 channelId = select_creator_id (db st) channelId"
    by (simp add: d1 select_creator_id_def delete_channel_member_def)
  define st1 where "st1 = io_to_emit (st\<lparr>db := d1\<rparr>) channelId (User_kicked channelId targetUserId)"
  define st2 where "st2 = force_disconnect st1 (rooms st1 channelId) channelId targetUserId"
  define st' where "st' = kick_user_from_channel (st\<lparr>db := d1\<rparr>) s channelId targetUserId"
  have st': "st' = io_to_emit st2 channelId (Member_removed_notification channelId targetUserId)"
    by (simp add: st'_def kick_user_from_channel_def same creator st1_def st2_def Let_def)
  have rooms1: "rooms st1 = rooms st"
    by (simp add: st1_def io_to_emit_def)
  have rooms': "rooms st' channelId =
      filter (\<lambda>r. sid r \<notin> sid ` {x \<in> set (rooms st channelId). s_userId x = targetUserId})
        (rooms st channelId)"
    by (simp add: st' io_to_emit_def st2_def force_disconnect_rooms rooms1)
  have db': "db st' = d1"
    by (simp add: st'_def kick_user_from_channel_db)
  have out': "outbox st' = outbox st
      @ map (\<lambda>r. (sid r, User_kicked channelId targetUserId)) (rooms st channelId)
      @ map (\<lambda>x. (sid x, Force_leave_channel channelId))
          (filter (\<lambda>x. s_userId x = targetUserId) (rooms st channelId))
      @ map (\<lambda>r. (sid r, Member_removed_notification channelId targetUserId)) (rooms st' channelId)"
    by (simp add: st' io_to_emit_def st2_def force_disconnect_outbox force_disconnect_rooms
        rooms1 rooms' st1_def)
  have a: "select_channel_members (db st') channelId targetUserId = []"
    by (simp add: db' d1 select_after_delete)
  have b: "\<forall>r \<in> set (rooms st' channelId). s_userId r \<noteq> targetUserId"
    by (auto simp: rooms')
  have c: "\<forall>r \<in> set (rooms st channelId). s_userId r = targetUserId \<longrightarrow>
               sid r \<notin> sid ` set (rooms st' channelId)
             \<and> (sid r, Force_leave_channel channelId) \<in> set (emitted st st')"
  proof (intro ballI impI conjI)
    fix r assume r: "r \<in> set (rooms st channelId)" "s_userId r = targetUserId"
    then have "sid r \<in> sid ` {x \<in> set (rooms st channelId). s_userId x = targetUserId}"
      by blast
    then show "sid r \<notin> sid ` set (rooms st' channelId)"
      by (auto simp: rooms')
    from r have "(sid r, Force_leave_channel channelId) \<in>
        set (map (\<lambda>x. (sid x, Force_leave_channel channelId))
          (filter (\<lambda>x. s_userId x = targetUserId) (rooms st channelId)))"
      by auto
    then show "(sid r, Force_leave_channel channelId) \<in> set (emitted st st')"
      by (simp add: emitted_def out')
  qed
  from a b c show ?thesis
    unfolding st'_def Let_def by blast
qed

text \<open>Alice removes Bob, whose phone and laptop are both in the room.\<close>

theorem forced_removal_run_witness:
  "removeUserFromChannel (db st0) (s_userId alice_conn) route_1 route_2 =
     (delete_channel_member db0 1 2, (200, Message_body ''User removed from channel successfully''))
   \<and> as_integer route_1 = Some 1 \<and> as_integer route_2 = Some 2
   \<and> (let st' = kick_user_from_channel (st0\<lparr>db := delete_channel_member db0 1 2\<rparr>) alice_conn 1 2
      in select_channel_members (db st') 1 2 = []
       \<and> rooms st' 1 = [alice_conn]
       \<and> (20, Force_leave_channel 1) \<in> set (emitted st0 st')
       \<and> (21, Force_leave_channel 1) \<in> set (emitted st0 st'))"
proof -
  have h: "removeUserFromChannel (db st0) (s_userId alice_conn) route_1 route_2 =
     (delete_channel_member db0 1 2, (200, Message_body ''User removed from channel successfully''))"
    by (simp add: removeUserFromChannel_def select_creator_id_def st0_def db0_def general_def
        alice_conn_def route_readings parseInt_route_2)
  have r: "rooms st0 1 = [alice_conn, bob_phone, bob_laptop]"
    by (simp add: st0_def)
  have k: "rooms (kick_user_from_channel (st0\<lparr>db := delete_channel_member db0 1 2\<rparr>)
      alice_conn 1 2) 1 = [alice_conn]"
    by (simp add: kick_user_from_channel_def select_creator_id_def delete_channel_member_def
        io_to_emit_def socket_emit_def socket_leave_def Let_def st0_def db0_def general_def
        alice_conn_def bob_phone_def bob_laptop_def)
  from forced_removal_run [OF h route_readings(1) route_readings(2)] h r k show ?thesis
    by (simp add: Let_def bob_phone_def bob_laptop_def alice_conn_def route_readings)
qed

section \<open>The channel creator\<close>











text \<open>
  The real-time handler has no check of the target: Alice's own kick event against
  herself is answered with no error and takes her connection out of the room, the
  membership table staying as it was.
\<close>

lemma kick_creator_realtime:
  "kick_user_from_channel st0 alice_conn 1 1 =
     st0\<lparr>rooms := (rooms st0)(1 := [bob_phone, bob_laptop]),
         outbox := [(10, User_kicked 1 1), (20, User_kicked 1 1), (21, User_kicked 1 1),
                    (10, Force_leave_channel 1),
                    (20, Member_removed_notification 1 1), (21, Member_removed_notification 1 1)]\<rparr>"
  by (simp add: kick_user_from_channel_def select_creator_id_def io_to_emit_def socket_emit_def
      socket_leave_def Let_def st0_def db0_def general_def alice_conn_def bob_phone_def
      bob_laptop_def)

text \<open>
  Where the two readings of \<^verbatim>\<open>userId\<close> differ the guard protects nobody: Alice's
  request with \<^verbatim>\<open>0b1\<close>, which \<^verbatim>\<open>parseInt\<close> reads as 0 and such a database as 1,
  is answered with status 200 and deletes her own membership row.
\<close>

lemma creator_removed_by_other_reading:
  "removeUserFromChannel db0 1 route_1 route_0b1 =
     (delete_channel_member db0 1 1, (200, Message_body ''User removed from channel successfully''))
   \<and> select_channel_members (delete_channel_member db0 1 1) 1 1 = []"
  by (simp add: removeUserFromChannel_def select_creator_id_def select_channel_members_def
      delete_channel_member_def db0_def general_def route_readings parseInt_route_0b1)

section \<open>Message content\<close>







section \<open>Message history\<close>

text \<open>
  Claim C5. The history of a channel is to be refused to a requester who is not a
  member. Carol is not a member of channel 1, and \<^verbatim>\<open>getChannelMessages\<close> answers her
  request with status 200 and the channel's message.
\<close>

theorem history_for_non_member:
  "select_channel_members (db st1) 1 3 = []
   \<and> getChannelMessages (db st1) 3 1 None None =
       (200, Messages_body
          [(\<lparr>m_id = 1, m_channel_id = 1, m_user_id = 2, m_content = hi, m_created_at = 5\<rparr>,
            ''bob'', ''#1976d2'')])"
  by (simp add: st1_value getChannelMessages_def select_channel_messages_def
      select_channel_members_def select_user_def db0_def alice_def bob_def carol_def)

text \<open>
  What the handler returns is ordered oldest first.
\<close>

lemma getChannelMessages_oldest_first:
  assumes "getChannelMessages d requesterId channelId limit_param offset_param =
             (200, Messages_body ms)"
  shows "sorted (map (\<lambda>r. m_created_at (fst r)) ms)"
proof -
  define rows where "rows = concat (map (\<lambda>m. map (\<lambda>u. (m, u_username u, u_avatar_color u))
       (select_user d (m_user_id m))) (filter (\<lambda>m. m_channel_id m = channelId) (messages d)))"
  from assms obtain n k where
    ms: "ms = rev (take n (drop k (rev (sort_key (\<lambda>r. m_created_at (fst r)) rows))))"
    by (auto simp: getChannelMessages_def select_channel_messages_def rows_def Let_def
        split: if_splits)
  have "sorted (map (\<lambda>r. m_created_at (fst r)) (sort_key (\<lambda>r. m_created_at (fst r)) rows))"
    by (rule sorted_sort_key)
  then have "sorted_wrt (\<lambda>x y. y \<le> x)
      (rev (map (\<lambda>r. m_created_at (fst r)) (sort_key (\<lambda>r. m_created_at (fst r)) rows)))"
    by (simp add: sorted_wrt_rev)
  then have "sorted_wrt (\<lambda>x y. y \<le> x)
      (take n (drop k (rev (map (\<lambda>r. m_created_at (fst r))
         (sort_key (\<lambda>r. m_created_at (fst r)) rows)))))"
    by (intro sorted_wrt_take sorted_wrt_drop)
  then have "sorted (rev (take n (drop k (rev (map (\<lambda>r. m_created_at (fst r))
         (sort_key (\<lambda>r. m_created_at (fst r)) rows))))))"
    by (simp add: sorted_wrt_rev)
  then show ?thesis
    by (simp add: ms rev_map take_map drop_map)
qed

section \<open>Real-time handlers and the membership table\<close>

text \<open>
  Claim C6. The handlers \<^verbatim>\<open>join_channel\<close>, \<^verbatim>\<open>leave_channel\<close>,
  \<^verbatim>\<open>typing\<close> and \<^verbatim>\<open>kick_user_from_channel\<close> leave the table
  \<^verbatim>\<open>channel_members\<close> as it was, for every state and every input; the real-time
  kick in particular deletes no membership row.
\<close>

theorem realtime_handlers_keep_membership:
  "channel_members (db (join_channel st s channelId)) = channel_members (db st)
   \<and> channel_members (db (leave_channel st s channelId)) = channel_members (db st)
   \<and> channel_members (db (typing st s channelId isTyping)) = channel_members (db st)
   \<and> channel_members (db (kick_user_from_channel st s channelId kickedUserId)) =
       channel_members (db st)"
  by (simp add: join_channel_db leave_channel_db typing_db kick_user_from_channel_db)

text \<open>
  Alice's kick event against Bob, without the HTTP removal: his connections leave the
  room and his membership row is still there.
\<close>

theorem realtime_handlers_keep_membership_witness:
  "channel_members (db (kick_user_from_channel st0 alice_conn 1 2)) = channel_members db0
   \<and> select_channel_members (db (kick_user_from_channel st0 alice_conn 1 2)) 1 2 \<noteq> []
   \<and> rooms (kick_user_from_channel st0 alice_conn 1 2) 1 = [alice_conn]"
proof -
  have r: "rooms (kick_user_from_channel st0 alice_conn 1 2) 1 = [alice_conn]"
    by (simp add: kick_user_from_channel_def select_creator_id_def io_to_emit_def socket_emit_def
      socket_leave_def Let_def st0_def db0_def general_def alice_conn_def bob_phone_def
      bob_laptop_def)
  from realtime_handlers_keep_membership [of st0 alice_conn 1 True 2] r show ?thesis
    by (simp add: select_channel_members_def st0_def db0_def)
qed

section \<open>Typing\<close>

text \<open>
  Claim C7. The \<^verbatim>\<open>typing\<close> handler checks membership first. Without a membership
  row the state stays as it was: nothing is emitted, neither an error nor
  \<^verbatim>\<open>force_leave_channel\<close>. With one, \<^verbatim>\<open>user_typing\<close> goes to every connection of
  the room other than the sender's and nothing else changes. In both cases nothing is
  delivered to the sending connection.
\<close>

theorem typing_gate:
  "(select_channel_members (db st) channelId (s_userId s) = [] \<longrightarrow>
      typing st s channelId isTyping = st)
   \<and> (select_channel_members (db st) channelId (s_userId s) \<noteq> [] \<longrightarrow>
        db (typing st s channelId isTyping) = db st
      \<and> rooms (typing st s channelId isTyping) = rooms st
      \<and> emitted st (typing st s channelId isTyping) =
          map (\<lambda>r. (sid r, User_typing (s_userId s) (s_username s) channelId isTyping))
            (filter (\<lambda>r. sid r \<noteq> sid s) (rooms st channelId)))
   \<and> (\<forall>e. (sid s, e) \<notin> set (emitted st (typing st s channelId isTyping)))"
  by (auto simp: typing_def socket_to_emit_def emitted_def)

text \<open>
  Carol's typing signal is dropped; Bob's, sent from his phone, reaches Alice and his
  laptop.
\<close>

theorem typing_gate_witness:
  "select_channel_members (db st0) 1 (s_userId carol_conn) = []
   \<and> typing st0 carol_conn 1 True = st0
   \<and> select_channel_members (db st0) 1 (s_userId bob_phone) \<noteq> []
   \<and> emitted st0 (typing st0 bob_phone 1 True) =
       [(10, User_typing 2 ''bob'' 1 True), (21, User_typing 2 ''bob'' 1 True)]"
proof -
  have c: "select_channel_members (db st0) 1 (s_userId carol_conn) = []"
    by (simp add: select_channel_members_def st0_def db0_def carol_conn_def)
  have b: "select_channel_members (db st0) 1 (s_userId bob_phone) \<noteq> []"
    by (simp add: select_channel_members_def st0_def db0_def bob_phone_def)
  have r: "rooms st0 1 = [alice_conn, bob_phone, bob_laptop]"
    by (simp add: st0_def)
  from typing_gate [of st0 1 carol_conn True] typing_gate [of st0 1 bob_phone True] c b r
  show ?thesis
    by (simp add: alice_conn_def bob_phone_def bob_laptop_def)
qed

section \<open>Uniqueness of membership rows\<close>

lemma unique_members_iff:
  "unique_members d \<longleftrightarrow>
     (\<forall>channelId userId. length (select_channel_members d channelId userId) \<le> 1)"
proof -
  have "distinct (map (\<lambda>r. (cm_channel_id r, cm_user_id r)) xs) \<longleftrightarrow>
      (\<forall>c u. length (filter (\<lambda>r. cm_channel_id r = c \<and> cm_user_id r = u) xs) \<le> 1)" for xs
  proof (induction xs)
    case Nil
    then show ?case by simp
  next
    case (Cons x xs)
    show ?case
    proof
      assume l: "distinct (map (\<lambda>r. (cm_channel_id r, cm_user_id r)) (x # xs))"
      then have "filter (\<lambda>r. cm_channel_id r = cm_channel_id x \<and> cm_user_id r = cm_user_id x) xs = []"
        by (auto simp: filter_empty_conv image_iff)
      with l Cons show "\<forall>c u. length (filter (\<lambda>r. cm_channel_id r = c \<and> cm_user_id r = u) (x # xs)) \<le> 1"
        by auto
    next
      assume r: "\<forall>c u. length (filter (\<lambda>r. cm_channel_id r = c \<and> cm_user_id r = u) (x # xs)) \<le> 1"
      then have "length (filter (\<lambda>r. cm_channel_id r = cm_channel_id x \<and> cm_user_id r = cm_user_id x) (x # xs)) \<le> 1"
        by blast
      then have "filter (\<lambda>r. cm_channel_id r = cm_channel_id x \<and> cm_user_id r = cm_user_id x) xs = []"
        by simp
      then have notin: "(cm_channel_id x, cm_user_id x) \<notin> set (map (\<lambda>r. (cm_channel_id r, cm_user_id r)) xs)"
        by (auto simp: filter_empty_conv image_iff)
      have "length (filter (\<lambda>r. cm_channel_id r = c \<and> cm_user_id r = u) xs) \<le> 1" for c u
        using r [rule_format, of c u] by (simp split: if_splits)
      with Cons notin show "distinct (map (\<lambda>r. (cm_channel_id r, cm_user_id r)) (x # xs))"
        by simp
    qed
  qed
  then show ?thesis
    by (simp add: unique_members_def select_channel_members_def)
qed

lemma insert_channel_member_unique:
  assumes "insert_channel_member d now channelId userId = Some d'" and "unique_members d"
  shows "unique_members d'"
proof -
  from assms(1) have none: "select_channel_members d channelId userId = []"
    and d': "d' = d\<lparr>channel_members := channel_members d @
        [\<lparr>cm_channel_id = channelId, cm_user_id = userId, cm_joined_at = now\<rparr>]\<rparr>"
    by (auto simp: insert_channel_member_def split: if_splits)
  from none have "(channelId, userId) \<notin>
      set (map (\<lambda>r. (cm_channel_id r, cm_user_id r)) (channel_members d))"
    by (auto simp: select_channel_members_def filter_empty_conv)
  with assms(2) show ?thesis
    by (simp add: unique_members_def d')
qed

lemma insert_channel_members:
  "channel_members (fst (insert_channel d now name description creatorId)) = channel_members d"
  by (simp add: insert_channel_def Let_def split: option.splits)

lemma createChannel_unique:
  assumes "unique_members d"
  shows "unique_members (fst (createChannel d now creatorId name description))"
proof (cases "insert_channel d now name description creatorId")
  case (Pair d1 res)
  then have m: "channel_members d1 = channel_members d"
    using insert_channel_members [of d now name description creatorId] by simp
  with assms have u1: "unique_members d1"
    by (simp add: unique_members_def)
  show ?thesis
  proof (cases res)
    case None
    with Pair assms show ?thesis
      by (simp add: createChannel_def unique_members_def)
  next
    case (Some channel)
    show ?thesis
    proof (cases "insert_channel_member d1 now (c_id channel) creatorId")
      case None
      with Pair Some assms show ?thesis
        by (simp add: createChannel_def unique_members_def)
    next
      case (Some d2)
      with insert_channel_member_unique [OF Some u1] Pair \<open>res = Some channel\<close> show ?thesis
        by (simp add: createChannel_def)
    qed
  qed
qed

lemma joinChannel_unique:
  assumes "unique_members d"
  shows "unique_members (fst (joinChannel d now userId channelId))"
  using assms insert_channel_member_unique [of d now channelId userId]
  by (auto simp: joinChannel_def split: option.splits)

lemma delete_channel_member_unique:
  "unique_members d \<Longrightarrow> unique_members (delete_channel_member d channelId userId)"
  by (simp add: unique_members_def delete_channel_member_def distinct_map_filter)

lemma removeUserFromChannel_unique:
  assumes "unique_members d"
  shows "unique_members (fst (removeUserFromChannel d requesterId channelParam userParam))"
  using assms delete_channel_member_unique [of d]
  by (auto simp: removeUserFromChannel_def split: list.splits option.splits)

lemma step_unique:
  assumes "unique_members (db st)"
  shows "unique_members (db (step st req))"
proof (cases req)
  case (Send_message now s channelId content)
  with assms show ?thesis
    by (simp add: unique_members_def send_message_tables)
qed (use assms in \<open>simp_all add: createChannel_unique joinChannel_unique
      removeUserFromChannel_unique join_channel_db leave_channel_db typing_db
      kick_user_from_channel_db\<close>)

lemma run_unique:
  "unique_members (db st) \<Longrightarrow> unique_members (db (run st reqs))"
  unfolding run_def
  by (induction reqs arbitrary: st) (simp_all add: step_unique)

text \<open>
  Claim C8. A join request from a user who is already a member is answered with
  status 400, \<^verbatim>\<open>Already a member of this channel\<close>, and the database stays as it was.
  Each of the operations that write the membership table, \<^verbatim>\<open>createChannel\<close>,
  \<^verbatim>\<open>joinChannel\<close> and \<^verbatim>\<open>removeUserFromChannel\<close>, keeps the pairs of channel and
  user in it distinct, and after any sequence of requests from a state where they are
  distinct there is at most one membership row for each channel and user.
\<close>

theorem membership_rows_unique:
  "(select_channel_members d channelId userId \<noteq> [] \<longrightarrow>
      joinChannel d now userId channelId =
        (d, (400, Error_body ''Already a member of this channel'')))
   \<and> (unique_members d \<longrightarrow>
        unique_members (fst (createChannel d now creatorId name description))
      \<and> unique_members (fst (joinChannel d now userId channelId))
      \<and> unique_members (fst (removeUserFromChannel d requesterId channelParam userParam)))
   \<and> (unique_members (db st) \<longrightarrow>
        (\<forall>c u. length (select_channel_members (db (run st reqs)) c u) \<le> 1))"
proof (intro conjI impI)
  assume "select_channel_members d channelId userId \<noteq> []"
  then show "joinChannel d now userId channelId =
      (d, (400, Error_body ''Already a member of this channel''))"
    by (simp add: joinChannel_def)
next
  assume "unique_members (db st)"
  then have "unique_members (db (run st reqs))"
    by (rule run_unique)
  then show "\<forall>c u. length (select_channel_members (db (run st reqs)) c u) \<le> 1"
    by (simp add: unique_members_iff)
qed (simp_all add: createChannel_unique joinChannel_unique removeUserFromChannel_unique)

text \<open>
  Bob's second join is refused; Carol joins once, and her second request adds no row.
\<close>

theorem membership_rows_unique_witness:
  "select_channel_members db0 1 2 \<noteq> []
   \<and> joinChannel db0 7 2 1 = (db0, (400, Error_body ''Already a member of this channel''))
   \<and> unique_members db0
   \<and> unique_members (fst (joinChannel db0 7 3 1))
   \<and> channel_members (fst (joinChannel db0 7 3 1)) =
       channel_members db0 @ [\<lparr>cm_channel_id = 1, cm_user_id = 3, cm_joined_at = 7\<rparr>]
   \<and> length (select_channel_members (db (run st0 [JoinChannel 7 3 1, JoinChannel 8 3 1])) 1 3) \<le> 1"
proof -
  have m: "select_channel_members db0 1 2 \<noteq> []"
    by (simp add: select_channel_members_def db0_def)
  have u: "unique_members db0"
    by (simp add: unique_members_def db0_def)
  have u': "unique_members (db st0)"
    using u by (simp add: st0_def)
  have j: "channel_members (fst (joinChannel db0 7 3 1)) =
       channel_members db0 @ [\<lparr>cm_channel_id = 1, cm_user_id = 3, cm_joined_at = 7\<rparr>]"
    by (simp add: joinChannel_def insert_channel_member_def query_defs db0_def general_def
        alice_def bob_def carol_def)
  from membership_rows_unique [where d = db0 and channelId = 1 and userId = 2 and now = 7
      and st = st0 and reqs = "[JoinChannel 7 3 1, JoinChannel 8 3 1]"]
    membership_rows_unique [where d = db0 and channelId = 1 and userId = 3 and now = 7
      and st = st0 and reqs = "[]"] m u u' j
  show ?thesis by simp
qed

section \<open>Presence on joining a room\<close>

text \<open>
  Claim C9. When \<^verbatim>\<open>join_channel\<close> passes the membership check, the connection is
  in the room afterwards, and the events emitted are, in this order: \<^verbatim>\<open>user_joined\<close>
  to every connection of the room other than the joiner's, then \<^verbatim>\<open>room_info\<close> to
  every connection of the room, the joiner's included, with \<^verbatim>\<open>onlineCount\<close> the
  number of connections in the room at that moment. The count is read from the room,
  not from the membership table.
\<close>

theorem join_channel_presence:
  assumes "select_channel_members (db st) channelId (s_userId s) \<noteq> []"
  shows "let st' = join_channel st s channelId; room = rooms st' channelId in
           room = (if sid s \<in> sid ` set (rooms st channelId) then rooms st channelId
                   else rooms st channelId @ [s])
         \<and> sid s \<in> sid ` set room
         \<and> emitted st st' =
             map (\<lambda>r. (sid r, User_joined (s_userId s) (s_username s) channelId))
               (filter (\<lambda>r. sid r \<noteq> sid s) room)
             @ map (\<lambda>r. (sid r, Room_info channelId (length room))) room"
  using assms
  by (auto simp: join_channel_def socket_join_def socket_to_emit_def io_to_emit_def
      emitted_def Let_def)

text \<open>
  Bob's laptop joins the room where Alice's connection and his phone already are: the
  count announced is 3, the channel having 2 members.
\<close>

theorem join_channel_presence_witness:
  "select_channel_members (db st2) 1 (s_userId bob_laptop) \<noteq> []
   \<and> length (channel_members (db st2)) = 2
   \<and> rooms (join_channel st2 bob_laptop 1) 1 = [alice_conn, bob_phone, bob_laptop]
   \<and> emitted st2 (join_channel st2 bob_laptop 1) =
       [(10, User_joined 2 ''bob'' 1), (20, User_joined 2 ''bob'' 1),
        (10, Room_info 1 3), (20, Room_info 1 3), (21, Room_info 1 3)]"
proof -
  have m: "select_channel_members (db st2) 1 (s_userId bob_laptop) \<noteq> []"
    by (simp add: select_channel_members_def st2_def st0_def db0_def bob_laptop_def)
  have l: "length (channel_members (db st2)) = 2"
    by (simp add: st2_def st0_def db0_def)
  have r: "rooms st2 1 = [alice_conn, bob_phone]"
    by (simp add: st2_def)
  from join_channel_presence [OF m] m l r show ?thesis
    by (simp add: Let_def alice_conn_def bob_phone_def bob_laptop_def)
qed

section \<open>Leaving a room twice\<close>

text \<open>
  Claim C10. \<^verbatim>\<open>leave_channel\<close> from a connection that is not in the channel's
  room changes no room and no table, and emits no error: the room, every other room and
  the database are as they were. The only events are the \<^verbatim>\<open>user_left\<close> notices that
  the handler sends to the connections of the room.
\<close>

theorem leave_channel_not_subscribed:
  assumes "sid s \<notin> sid ` set (rooms st channelId)"
  shows "rooms (leave_channel st s channelId) = rooms st
       \<and> db (leave_channel st s channelId) = db st
       \<and> emitted st (leave_channel st s channelId) =
           map (\<lambda>r. (sid r, User_left (s_userId s) (s_username s) channelId)) (rooms st channelId)
       \<and> (\<forall>x m. (x, Error_event m) \<notin> set (emitted st (leave_channel st s channelId)))"
proof -
  from assms have "\<forall>r \<in> set (rooms st channelId). sid r \<noteq> sid s"
    by (metis imageI)
  then have f: "filter (\<lambda>r. sid r \<noteq> sid s) (rooms st channelId) = rooms st channelId"
    by (simp add: filter_id_conv)
  show ?thesis
    by (auto simp: leave_channel_def socket_leave_def socket_to_emit_def emitted_def f)
qed

text \<open>
  Carol's connection never joined the room of channel 1.
\<close>

theorem leave_channel_not_subscribed_witness:
  "sid carol_conn \<notin> sid ` set (rooms st0 1)
   \<and> rooms (leave_channel st0 carol_conn 1) = rooms st0
   \<and> db (leave_channel st0 carol_conn 1) = db st0
   \<and> emitted st0 (leave_channel st0 carol_conn 1) =
       [(10, User_left 3 ''carol'' 1), (20, User_left 3 ''carol'' 1),
        (21, User_left 3 ''carol'' 1)]"
proof -
  have r: "rooms st0 1 = [alice_conn, bob_phone, bob_laptop]"
    by (simp add: st0_def)
  have h: "sid carol_conn \<notin> sid ` set (rooms st0 1)"
    by (simp add: r alice_conn_def bob_phone_def bob_laptop_def carol_conn_def)
  from leave_channel_not_subscribed [OF h] h r show ?thesis
    by (simp add: alice_conn_def bob_phone_def bob_laptop_def carol_conn_def)
qed

end
